theory Spec2Isabelle
  imports Complex_Main "HOL-Library.Word"
begin

section \<open>Domain entities (package entity)\<close>

text \<open>
  Instants (Go \<open>time.Time\<close>, SQL \<open>TIMESTAMP\<close>) are integers: nanoseconds on one
  common time line. Go's sized integers are HOL integers; where a computation can leave
  the 64-bit range the wrap-around is written out with \<open>wrap64\<close>. A \<open>float64\<close> is
  a real number: the arithmetic of the scoring service is modelled exactly.
\<close>

type_synonym time = int

record ContentStats =
  Stats_ID :: int
  Stats_ContentID :: int
  Views :: int
  Likes :: int
  ReadingTime :: int
  Reactions :: int
  Stats_UpdatedAt :: time

record ContentScore =
  Score_ID :: int
  Score_ContentID :: int
  BaseScore :: real
  TypeWeight :: real
  RecencyScore :: real
  EngagementScore :: real
  FinalScore :: real
  CalculatedAt :: time

record Tag =
  Tag_ID :: int
  Tag_Name :: string
  Tag_CreatedAt :: time

text \<open>\<open>ContentType\<close> is a Go string type with two named constants.\<close>

definition ContentTypeVideo :: string where
  "ContentTypeVideo = ''video''"

definition ContentTypeArticle :: string where
  "ContentTypeArticle = ''article''"

record Content =
  ID :: int
  ProviderID :: int
  ProviderContentID :: string
  Title :: string
  Description :: string
  ContentType :: string
  PublishedAt :: time
  CreatedAt :: time
  UpdatedAt :: time
  Stats :: "ContentStats option"
  Score :: "ContentScore option"
  Tags :: "Tag list"
  RelevanceScore :: real
  RawData :: string
  Deleted :: bool

section \<open>Scoring service\<close>

record ScoringRules =
  VideoTypeWeight :: real
  ArticleTypeWeight :: real

text \<open>\<open>NewScoringService\<close> replaces a zero weight by its default.\<close>

definition NewScoringService :: "ScoringRules \<Rightarrow> ScoringRules" where
  "NewScoringService rules =
     (let r1 = (if VideoTypeWeight rules = 0 then rules\<lparr>VideoTypeWeight := 1.5\<rparr> else rules);
          r2 = (if ArticleTypeWeight r1 = 0 then r1\<lparr>ArticleTypeWeight := 1.0\<rparr> else r1)
      in r2)"

text \<open>Go's \<open>math.Round\<close>: the nearest integer, halves away from zero.\<close>

definition math_Round :: "real \<Rightarrow> real" where
  "math_Round x = (if x < 0 then - of_int \<lfloor>- x + 1 / 2\<rfloor> else of_int \<lfloor>x + 1 / 2\<rfloor>)"

text \<open>
  \<open>time.Duration\<close> is a signed 64-bit count of nanoseconds; \<open>Time.Sub\<close> saturates
  at the largest and the smallest duration.
\<close>

definition maxDuration :: int where
  "maxDuration = 2 ^ 63 - 1"

definition minDuration :: int where
  "minDuration = - (2 ^ 63)"

definition time_Sub :: "time \<Rightarrow> time \<Rightarrow> int" where
  "time_Sub t u =
     (let d = t - u
      in if d > maxDuration then maxDuration else if d < minDuration then minDuration else d)"

definition Hour :: int where
  "Hour = 3600 * 1000000000"

definition calculateRecencyScore :: "time \<Rightarrow> time \<Rightarrow> real" where
  "calculateRecencyScore now publishedAt =
     (let duration = time_Sub now publishedAt
      in if duration \<le> 7 * 24 * Hour then 5.0
         else if duration \<le> 30 * 24 * Hour then 3.0
         else if duration \<le> 90 * 24 * Hour then 1.0
         else 0.0)"

definition calculateEngagementScore :: "Content \<Rightarrow> real" where
  "calculateEngagementScore content =
     (case Stats content of
        None \<Rightarrow> 0.0
      | Some st \<Rightarrow>
          if ContentType content = ContentTypeVideo then
            (if Views st = 0 then 0.0
             else (real_of_int (Likes st) / real_of_int (Views st)) * 10.0)
          else
            (if ReadingTime st = 0 then 0.0
             else (real_of_int (Reactions st) / real_of_int (ReadingTime st)) * 5.0))"

text \<open>
  \<open>CalculateScore\<close> returns no score (\<open>nil, nil\<close>) for a content without
  statistics; its error result is always \<open>nil\<close>. The clock reading \<open>now\<close> is an
  argument of the model.
\<close>

definition CalculateScore :: "ScoringRules \<Rightarrow> Content \<Rightarrow> time \<Rightarrow> ContentScore option" where
  "CalculateScore rules content now =
     (case Stats content of
        None \<Rightarrow> None
      | Some st \<Rightarrow>
          let base = (if ContentType content = ContentTypeVideo
                      then real_of_int (Views st) / 1000.0 + real_of_int (Likes st) / 100.0
                      else real_of_int (ReadingTime st) + real_of_int (Reactions st) / 50.0);
              weight = (if ContentType content = ContentTypeVideo
                        then VideoTypeWeight rules else ArticleTypeWeight rules);
              recency = calculateRecencyScore now (PublishedAt content);
              engagement = calculateEngagementScore content;
              final = (base * weight) + recency + engagement
          in Some \<lparr>Score_ID = 0, Score_ContentID = ID content,
                    BaseScore = math_Round (base * 100) / 100,
                    TypeWeight = weight,
                    RecencyScore = math_Round (recency * 100) / 100,
                    EngagementScore = math_Round (engagement * 100) / 100,
                    FinalScore = math_Round (final * 100) / 100,
                    CalculatedAt = now\<rparr>)"

text \<open>The five components of a score, in the order base, weight, recency, engagement, final.\<close>

definition components :: "ContentScore \<Rightarrow> real \<times> real \<times> real \<times> real \<times> real" where
  "components s = (BaseScore s, TypeWeight s, RecencyScore s, EngagementScore s, FinalScore s)"

definition defaultRules :: ScoringRules where
  "defaultRules = NewScoringService \<lparr>VideoTypeWeight = 0, ArticleTypeWeight = 0\<rparr>"

text \<open>The video of the scenario: 150000 views, 5000 likes, published five days before \<open>now\<close>.\<close>

definition hotVideo :: "time \<Rightarrow> Content" where
  "hotVideo now =
     \<lparr>ID = 1, ProviderID = 1, ProviderContentID = ''v1'', Title = ''Go Programming Tutorial'',
      Description = [], ContentType = ContentTypeVideo, PublishedAt = now - 5 * 24 * Hour,
      CreatedAt = 0, UpdatedAt = 0,
      Stats = Some \<lparr>Stats_ID = 0, Stats_ContentID = 1, Views = 150000, Likes = 5000,
                     ReadingTime = 0, Reactions = 0, Stats_UpdatedAt = 0\<rparr>,
      Score = None, Tags = [], RelevanceScore = 0, RawData = [], Deleted = False\<rparr>"



section \<open>Go integers and strings\<close>

text \<open>
  \<open>wrap64\<close> is the value a signed 64-bit register holds after an addition, subtraction
  or multiplication whose exact result is \<open>x\<close>. \<open>go_quo\<close> is Go's integer division,
  which truncates towards zero; both divisions of the program are guarded by a positive
  divisor.
\<close>

definition wrap64 :: "int \<Rightarrow> int" where
  "wrap64 x = (x + 2 ^ 63) mod 2 ^ 64 - 2 ^ 63"

definition go_quo :: "int \<Rightarrow> int \<Rightarrow> int" where
  "go_quo a b = sgn a * sgn b * (\<bar>a\<bar> div \<bar>b\<bar>)"

text \<open>The verb \<open>%d\<close> of \<open>fmt.Sprintf\<close>: decimal digits, a minus sign before a negative number.\<close>

definition digit_char :: "nat \<Rightarrow> char" where
  "digit_char n = char_of (48 + n)"

function digits :: "nat \<Rightarrow> string" where
  "digits n = (if n < 10 then [digit_char n] else digits (n div 10) @ [digit_char (n mod 10)])"
  by pat_completeness auto
termination
  by (relation "measure id") auto

declare digits.simps [simp del]

definition Sprint_d :: "int \<Rightarrow> string" where
  "Sprint_d i = (if i < 0 then CHR ''-'' # digits (nat (- i)) else digits (nat i))"

text \<open>
  The verb \<open>%x\<close> on a \<open>[16]byte\<close>: two lower-case hexadecimal digits for each byte,
  the first byte first. The 16 bytes of a digest are held as one 128-bit word, its most
  significant byte being the first byte.
\<close>

definition hex_char :: "nat \<Rightarrow> char" where
  "hex_char n = (if n < 10 then char_of (48 + n) else char_of (87 + n))"

definition digest_bytes :: "128 word \<Rightarrow> nat list" where
  "digest_bytes w = map (\<lambda>i. unat (drop_bit (8 * i) w) mod 256) (rev [0..<16])"

definition Sprint_x :: "128 word \<Rightarrow> string" where
  "Sprint_x w = concat (map (\<lambda>b. [hex_char (b div 16), hex_char (b mod 16)]) (digest_bytes w))"





text \<open>
  \<open>strconv.Atoi\<close>, whose error the handler drops: a syntax error leaves 0, a number
  out of the 64-bit range leaves the nearest bound.
\<close>

definition is_digit :: "char \<Rightarrow> bool" where
  "is_digit c = (48 \<le> (of_char c :: nat) \<and> (of_char c :: nat) \<le> 57)"

definition digits_val :: "string \<Rightarrow> int" where
  "digits_val ds = foldl (\<lambda>acc c. 10 * acc + (int (of_char c) - 48)) 0 ds"

definition Atoi :: "string \<Rightarrow> int" where
  "Atoi s =
     (let neg = (case s of c # _ \<Rightarrow> c = CHR ''-'' | [] \<Rightarrow> False);
          ds = (case s of c # r \<Rightarrow> if c = CHR ''+'' \<or> c = CHR ''-'' then r else s | [] \<Rightarrow> s)
      in if ds = [] \<or> \<not> list_all is_digit ds then 0
         else if neg then (if digits_val ds > 2 ^ 63 then - (2 ^ 63) else - digits_val ds)
         else (if digits_val ds > 2 ^ 63 - 1 then 2 ^ 63 - 1 else digits_val ds))"

section \<open>Search use case\<close>

record SearchParams =
  Query :: string
  Filter_ContentType :: string
  SortBy :: string
  Page :: int
  PageSize :: int

record Pagination =
  Pagination_Page :: int
  Pagination_PageSize :: int
  TotalItems :: int
  TotalPages :: int

record SearchResult =
  Items :: "Content list"
  Pagination :: Pagination

datatype error =
    InvalidSortBy string
  | InvalidContentType string
  | SearchFailed

text \<open>
  \<open>validateParams\<close> rewrites the parameters through a pointer and returns an error
  for a sort order or a content type it does not know; the model returns the rewritten
  parameters.
\<close>

definition validateParams :: "SearchParams \<Rightarrow> error + SearchParams" where
  "validateParams params =
     (let p1 = (if Page params < 1 then params\<lparr>Page := 1\<rparr> else params);
          p2 = (if PageSize p1 < 1 then p1\<lparr>PageSize := 20\<rparr> else p1);
          p3 = (if PageSize p2 > 50 then p2\<lparr>PageSize := 50\<rparr> else p2);
          p4 = (if SortBy p3 = [] then p3\<lparr>SortBy := ''popularity''\<rparr> else p3)
      in if SortBy p4 \<noteq> ''popularity'' \<and> SortBy p4 \<noteq> ''relevance''
         then Inl (InvalidSortBy (SortBy p4))
         else if Filter_ContentType p4 \<noteq> [] \<and> Filter_ContentType p4 \<noteq> ContentTypeVideo
                 \<and> Filter_ContentType p4 \<noteq> ContentTypeArticle
         then Inl (InvalidContentType (Filter_ContentType p4))
         else Inr p4)"

text \<open>
  The string that \<open>generateCacheKey\<close> builds before hashing, and the key. \<open>md5.Sum\<close>
  belongs to Go's library: the digest function is an argument of the model, a function
  from byte strings to 16 bytes.
\<close>

definition canonicalKey :: "SearchParams \<Rightarrow> string" where
  "canonicalKey params =
     ''search:'' @ Query params @ '':'' @ Filter_ContentType params @ '':'' @ SortBy params
       @ '':'' @ Sprint_d (Page params) @ '':'' @ Sprint_d (PageSize params)"

definition generateCacheKey :: "(string \<Rightarrow> 128 word) \<Rightarrow> SearchParams \<Rightarrow> string" where
  "generateCacheKey md5_Sum params = ''search:'' @ Sprint_x (md5_Sum (canonicalKey params))"

text \<open>
  The result cache keeps serialised results under their keys. The model keeps the
  result itself (serialisation is taken to be faithful); a cache that is down answers
  every \<open>Get\<close> with an error and drops every \<open>Set\<close>.
\<close>

record CacheRepository =
  cache_up :: bool
  cache_entries :: "string \<rightharpoonup> SearchResult"

definition cache_Get :: "CacheRepository \<Rightarrow> string \<Rightarrow> SearchResult option" where
  "cache_Get c k = (if cache_up c then cache_entries c k else None)"

definition cache_Set :: "CacheRepository \<Rightarrow> string \<Rightarrow> SearchResult \<Rightarrow> CacheRepository" where
  "cache_Set c k v = (if cache_up c then c\<lparr>cache_entries := (cache_entries c)(k \<mapsto> v)\<rparr> else c)"

text \<open>
  \<open>Execute\<close> of the search use case. The repository's \<open>Search\<close> is an argument:
  it answers with the page of contents and the number of matching rows, or fails.
\<close>

definition Execute ::
  "(string \<Rightarrow> 128 word) \<Rightarrow> (SearchParams \<Rightarrow> (Content list \<times> int) option) \<Rightarrow> CacheRepository
     \<Rightarrow> SearchParams \<Rightarrow> (error + SearchResult) \<times> CacheRepository" where
  "Execute md5_Sum Search cache params0 =
     (case validateParams params0 of
        Inl err \<Rightarrow> (Inl err, cache)
      | Inr params \<Rightarrow>
          let cacheKey = generateCacheKey md5_Sum params
          in case cache_Get cache cacheKey of
               Some cached \<Rightarrow> (Inr cached, cache)
             | None \<Rightarrow>
                 (case Search params of
                    None \<Rightarrow> (Inl SearchFailed, cache)
                  | Some (found, totalCount) \<Rightarrow>
                      let result = \<lparr>Items = found,
                            Pagination = \<lparr>Pagination_Page = Page params,
                              Pagination_PageSize = PageSize params,
                              TotalItems = totalCount,
                              TotalPages = go_quo (wrap64 (wrap64 (totalCount + PageSize params) - 1))
                                             (PageSize params)\<rparr>\<rparr>
                      in (Inr result, cache_Set cache cacheKey result)))"

section \<open>HTTP handler\<close>

text \<open>
  A request is read through \<open>r.URL.Query().Get\<close>, which gives the empty string for a
  missing parameter. The response is its status code and its JSON body; an error body
  \<open>{error: message}\<close> is modelled by the error it reports.
\<close>

datatype body = ErrorBody error | ResultBody SearchResult

record Response =
  StatusCode :: int
  Body :: body

definition StatusOK :: int where
  "StatusOK = 200"

definition StatusBadRequest :: int where
  "StatusBadRequest = 400"

definition StatusInternalServerError :: int where
  "StatusInternalServerError = 500"

definition HandleSearch ::
  "(string \<Rightarrow> 128 word) \<Rightarrow> (SearchParams \<Rightarrow> (Content list \<times> int) option) \<Rightarrow> CacheRepository
     \<Rightarrow> (string \<Rightarrow> string) \<Rightarrow> Response \<times> CacheRepository" where
  "HandleSearch md5_Sum Search cache url_Query =
     (let query = url_Query ''query'';
          contentType = url_Query ''type'';
          sortBy = (if url_Query ''sort'' = [] then ''popularity'' else url_Query ''sort'');
          page = (if Atoi (url_Query ''page'') < 1 then 1 else Atoi (url_Query ''page''));
          pageSize = (if Atoi (url_Query ''page_size'') < 1 then 20 else Atoi (url_Query ''page_size''));
          params = \<lparr>Query = query, Filter_ContentType = contentType, SortBy = sortBy,
                     Page = page, PageSize = pageSize\<rparr>
      in case Execute md5_Sum Search cache params of
           (Inl err, cache') \<Rightarrow> (\<lparr>StatusCode = StatusInternalServerError, Body = ErrorBody err\<rparr>, cache')
         | (Inr result, cache') \<Rightarrow> (\<lparr>StatusCode = StatusOK, Body = ResultBody result\<rparr>, cache'))"

section \<open>Provider adapters\<close>

record NormalizedContent =
  ExternalID :: string
  N_Title :: string
  N_Description :: string
  N_ContentType :: string
  N_PublishedAt :: time
  N_Stats :: ContentStats
  N_Tags :: "string list"
  N_RawData :: string

record JSONMetrics =
  M_Views :: int
  M_Likes :: int
  M_Duration :: string
  M_ReadingTime :: int
  M_Reactions :: int

record JSONContent =
  J_ID :: string
  J_Title :: string
  J_Type :: string
  J_Metrics :: JSONMetrics
  J_PublishedAt :: string
  J_Tags :: "string list"

record JSONResponse =
  J_Contents :: "JSONContent list"
  J_Total :: int
  J_Page :: int
  J_PerPage :: int

record XMLStats =
  XS_Views :: int
  XS_Likes :: int
  XS_ReadingTime :: int
  XS_Reactions :: int

record XMLItem =
  X_ID :: string
  X_Title :: string
  X_Type :: string
  X_Stats :: XMLStats
  X_PubDate :: string
  X_Category :: "string list"

record XMLResponse =
  X_Items :: "XMLItem list"
  X_Total :: int
  X_Page :: int
  X_PerPage :: int

datatype normalize_error = MissingID | DateParseError string | InvalidType string

text \<open>
  \<open>time.Parse layout value\<close> belongs to Go's library and is an argument
  \<open>time_Parse\<close> of the model; these are the two layouts the adapters pass to it.
\<close>

definition RFC3339 :: string where
  "RFC3339 = ''2006-01-02T15:04:05Z07:00''"

definition DateOnly :: string where
  "DateOnly = ''2006-01-02''"

text \<open>The statistics of a normalized record: the fields the adapter does not set are zero.\<close>

definition newStats :: "int \<Rightarrow> int \<Rightarrow> int \<Rightarrow> int \<Rightarrow> ContentStats" where
  "newStats v l rt re =
     \<lparr>Stats_ID = 0, Stats_ContentID = 0, Views = v, Likes = l, ReadingTime = rt,
      Reactions = re, Stats_UpdatedAt = 0\<rparr>"

definition jsonProvider_normalize ::
  "(string \<Rightarrow> string \<Rightarrow> time option) \<Rightarrow> JSONContent \<Rightarrow> string \<Rightarrow> normalize_error + NormalizedContent" where
  "jsonProvider_normalize time_Parse raw rawData =
     (case time_Parse RFC3339 (J_PublishedAt raw) of
        None \<Rightarrow> Inl (DateParseError (J_PublishedAt raw))
      | Some publishedAt \<Rightarrow>
          if J_Type raw \<noteq> ''video'' \<and> J_Type raw \<noteq> ''article'' then Inl (InvalidType (J_Type raw))
          else Inr \<lparr>ExternalID = J_ID raw, N_Title = J_Title raw, N_Description = [],
                 N_ContentType = (if J_Type raw = ''video'' then ContentTypeVideo else ContentTypeArticle),
                 N_PublishedAt = publishedAt,
                 N_Stats = newStats (M_Views (J_Metrics raw)) (M_Likes (J_Metrics raw))
                             (M_ReadingTime (J_Metrics raw)) (M_Reactions (J_Metrics raw)),
                 N_Tags = J_Tags raw, N_RawData = rawData\<rparr>)"

definition xmlProvider_normalize ::
  "(string \<Rightarrow> string \<Rightarrow> time option) \<Rightarrow> XMLItem \<Rightarrow> string \<Rightarrow> normalize_error + NormalizedContent" where
  "xmlProvider_normalize time_Parse raw rawData =
     (if X_ID raw = [] then Inl MissingID
      else case (case time_Parse RFC3339 (X_PubDate raw) of
                   Some t \<Rightarrow> Some t
                 | None \<Rightarrow> time_Parse DateOnly (X_PubDate raw)) of
        None \<Rightarrow> Inl (DateParseError (X_PubDate raw))
      | Some publishedAt \<Rightarrow>
          if X_Type raw \<noteq> ''video'' \<and> X_Type raw \<noteq> ''article'' then Inl (InvalidType (X_Type raw))
          else Inr \<lparr>ExternalID = X_ID raw, N_Title = X_Title raw, N_Description = [],
                 N_ContentType = (if X_Type raw = ''video'' then ContentTypeVideo else ContentTypeArticle),
                 N_PublishedAt = publishedAt,
                 N_Stats = newStats (XS_Views (X_Stats raw)) (XS_Likes (X_Stats raw))
                             (XS_ReadingTime (X_Stats raw)) (XS_Reactions (X_Stats raw)),
                 N_Tags = X_Category raw, N_RawData = rawData\<rparr>)"

text \<open>
  The remote feed, as \<open>FetchContents\<close> sees it: whether the rate limiter lets the
  request for a page through (it fails when the context is cancelled), and what the
  \<open>n\<close>-th \<open>http.Get\<close> of a page gives: a transport error, or a status code with a
  body that cannot be read, cannot be decoded, or decodes to a response.
\<close>

datatype 'r http_body = Unreadable | Malformed | Decoded 'r

datatype 'r http_result = TransportError | HTTPResponse int "'r http_body"

datatype fetch_error = RateLimiterError | RequestFailed | BadStatus int | BodyReadError | ParseError

definition isOK :: "'r http_result \<Rightarrow> bool" where
  "isOK r = (case r of TransportError \<Rightarrow> False | HTTPResponse st _ \<Rightarrow> st = StatusOK)"

text \<open>Up to three attempts; the loop leaves the first good answer, or the third answer.\<close>

definition getWithRetry :: "(nat \<Rightarrow> 'r http_result) \<Rightarrow> 'r http_result" where
  "getWithRetry attempt =
     (if isOK (attempt 0) then attempt 0
      else if isOK (attempt 1) then attempt 1
      else attempt 2)"

text \<open>The inner loop: every item that normalizes is appended, the others are skipped.\<close>

fun appendNormalized ::
  "('i \<Rightarrow> normalize_error + NormalizedContent) \<Rightarrow> NormalizedContent list \<Rightarrow> 'i list
     \<Rightarrow> NormalizedContent list" where
  "appendNormalized normalizeItem allNormalized [] = allNormalized"
| "appendNormalized normalizeItem allNormalized (raw # rest) =
     (case normalizeItem raw of
        Inl err \<Rightarrow> appendNormalized normalizeItem allNormalized rest
      | Inr content \<Rightarrow> appendNormalized normalizeItem (allNormalized @ [content]) rest)"

text \<open>
  The page loop of \<open>FetchContents\<close>, which the two adapters share word for word.
  \<open>view\<close> reads the total, the page size and the items of a decoded response;
  \<open>normalizeItem\<close> is the adapter's \<open>normalize\<close> on an item and its re-serialised form.
\<close>

function fetchLoop ::
  "(int \<Rightarrow> bool) \<Rightarrow> (int \<Rightarrow> nat \<Rightarrow> 'r http_result) \<Rightarrow> ('r \<Rightarrow> int \<times> int \<times> 'i list)
     \<Rightarrow> ('i \<Rightarrow> normalize_error + NormalizedContent)
     \<Rightarrow> int \<Rightarrow> int \<Rightarrow> NormalizedContent list \<Rightarrow> fetch_error + NormalizedContent list" where
  "fetchLoop wait get view normalizeItem page totalPages allNormalized =
     (if page \<le> totalPages then
        if \<not> wait page then Inl RateLimiterError
        else case getWithRetry (get page) of
          TransportError \<Rightarrow> Inl RequestFailed
        | HTTPResponse st b \<Rightarrow>
            if st \<noteq> StatusOK then Inl (BadStatus st)
            else case b of
              Unreadable \<Rightarrow> Inl BodyReadError
            | Malformed \<Rightarrow> Inl ParseError
            | Decoded response \<Rightarrow>
                (case view response of (total_hint, perPage, items) \<Rightarrow>
                  let totalPages' =
                        (if page = 1 \<and> perPage > 0
                         then go_quo (wrap64 (wrap64 (total_hint + perPage) - 1)) perPage
                         else totalPages)
                  in if int (length allNormalized) \<ge> total_hint \<or> length allNormalized \<ge> 1000
                     then Inr allNormalized
                     else fetchLoop wait get view normalizeItem (page + 1) totalPages'
                            (appendNormalized normalizeItem allNormalized items))
      else Inr allNormalized)"
  by pat_completeness auto
termination
  by (relation "measures [\<lambda>(wait, get, view, normalizeItem, page, totalPages, allNormalized). if page \<le> 1 then 1 else 0,
        \<lambda>(wait, get, view, normalizeItem, page, totalPages, allNormalized). nat (totalPages + 1 - page)]")
    (auto split: if_splits)

declare fetchLoop.simps [simp del]

definition jsonProvider_FetchContents ::
  "(string \<Rightarrow> string \<Rightarrow> time option) \<Rightarrow> (JSONContent \<Rightarrow> string) \<Rightarrow> (int \<Rightarrow> bool)
     \<Rightarrow> (int \<Rightarrow> nat \<Rightarrow> JSONResponse http_result) \<Rightarrow> fetch_error + NormalizedContent list" where
  "jsonProvider_FetchContents time_Parse json_Marshal wait get =
     fetchLoop wait get (\<lambda>r. (J_Total r, J_PerPage r, J_Contents r))
       (\<lambda>raw. jsonProvider_normalize time_Parse raw (json_Marshal raw)) 1 1 []"

definition xmlProvider_FetchContents ::
  "(string \<Rightarrow> string \<Rightarrow> time option) \<Rightarrow> (XMLItem \<Rightarrow> string) \<Rightarrow> (int \<Rightarrow> bool)
     \<Rightarrow> (int \<Rightarrow> nat \<Rightarrow> XMLResponse http_result) \<Rightarrow> fetch_error + NormalizedContent list" where
  "xmlProvider_FetchContents time_Parse xml_Marshal wait get =
     fetchLoop wait get (\<lambda>r. (X_Total r, X_PerPage r, X_Items r))
       (\<lambda>raw. xmlProvider_normalize time_Parse raw (xml_Marshal raw)) 1 1 []"

section \<open>Content store\<close>

text \<open>
  The tables of the store, a row a record, a table the list of its rows in the order
  of insertion. \<open>providers\<close> holds the ids of the provider rows. Each \<open>SERIAL\<close>
  column draws its values from a sequence, held as the next value it will give.
\<close>

record content_row =
  c_id :: int
  c_provider_id :: int
  c_provider_content_id :: string
  c_title :: string
  c_description :: string
  c_content_type :: string
  c_published_at :: time
  c_created_at :: time
  c_updated_at :: time
  c_raw_data :: string
  c_deleted :: int

record stats_row =
  st_id :: int
  st_content_id :: int
  st_views :: int
  st_likes :: int
  st_reading_time :: int
  st_reactions :: int
  st_updated_at :: time

record score_row =
  sc_id :: int
  sc_content_id :: int
  sc_base_score :: real
  sc_type_weight :: real
  sc_recency_score :: real
  sc_engagement_score :: real
  sc_final_score :: real
  sc_calculated_at :: time

record tag_row =
  t_id :: int
  t_name :: string
  t_created_at :: time

record content_tag_row =
  ct_content_id :: int
  ct_tag_id :: int
  ct_created_at :: time

record database =
  providers :: "int list"
  contents :: "content_row list"
  content_stats :: "stats_row list"
  content_scores :: "score_row list"
  tags :: "tag_row list"
  content_tags :: "content_tag_row list"
  contents_id_seq :: int
  content_stats_id_seq :: int
  content_scores_id_seq :: int
  tags_id_seq :: int












definition stale :: "int \<Rightarrow> time \<Rightarrow> content_row \<Rightarrow> bool" where
  "stale providerID threshold r =
     (c_provider_id r = providerID \<and> c_updated_at r < threshold \<and> c_deleted r = 0)"

definition MarkStaleContentsAsDeleted :: "database \<Rightarrow> time \<Rightarrow> int \<Rightarrow> time \<Rightarrow> database" where
  "MarkStaleContentsAsDeleted d now providerID threshold =
     d\<lparr>contents :=
         map (\<lambda>r. if stale providerID threshold r then r\<lparr>c_deleted := 1, c_updated_at := now\<rparr> else r)
           (contents d)\<rparr>"

section \<open>Sync use case\<close>







section \<open>Example data\<close>

text \<open>
  A store with two providers. Provider 1 has the live contents \<open>a\<close> (last written
  at time 10) and \<open>b\<close> (at time 60) and the deleted content \<open>c\<close>; provider 2
  has a live content \<open>a\<close> of its own.
\<close>

definition exampleStore :: database where
  "exampleStore =
     \<lparr>providers = [1, 2],
      contents =
        [\<lparr>c_id = 1, c_provider_id = 1, c_provider_content_id = ''a'', c_title = ''A'',
          c_description = [], c_content_type = ''video'', c_published_at = 0,
          c_created_at = 10, c_updated_at = 10, c_raw_data = [], c_deleted = 0\<rparr>,
         \<lparr>c_id = 2, c_provider_id = 1, c_provider_content_id = ''b'', c_title = ''B'',
          c_description = [], c_content_type = ''article'', c_published_at = 0,
          c_created_at = 10, c_updated_at = 60, c_raw_data = [], c_deleted = 0\<rparr>,
         \<lparr>c_id = 3, c_provider_id = 2, c_provider_content_id = ''a'', c_title = ''A2'',
          c_description = [], c_content_type = ''video'', c_published_at = 0,
          c_created_at = 10, c_updated_at = 10, c_raw_data = [], c_deleted = 0\<rparr>,
         \<lparr>c_id = 4, c_provider_id = 1, c_provider_content_id = ''c'', c_title = ''C'',
          c_description = [], c_content_type = ''video'', c_published_at = 0,
          c_created_at = 5, c_updated_at = 5, c_raw_data = [], c_deleted = 1\<rparr>],
      content_stats = [], content_scores = [],
      tags = [\<lparr>t_id = 1, t_name = ''go'', t_created_at = 10\<rparr>],
      content_tags = [\<lparr>ct_content_id = 1, ct_tag_id = 1, ct_created_at = 10\<rparr>],
      contents_id_seq = 5, content_stats_id_seq = 1, content_scores_id_seq = 1, tags_id_seq = 2\<rparr>"

text \<open>
  A feed item of the JSON dialect with the given id, and a feed that answers every
  request at once with status 200: page \<open>n\<close> holds \<open>items n\<close>, under the given
  total and page size.
\<close>

definition jsonItem :: "string \<Rightarrow> JSONContent" where
  "jsonItem ident =
     \<lparr>J_ID = ident, J_Title = ''Go Tutorial'', J_Type = ''video'',
      J_Metrics = \<lparr>M_Views = 1000, M_Likes = 500, M_Duration = ''10m'', M_ReadingTime = 0,
                    M_Reactions = 0\<rparr>,
      J_PublishedAt = ''2024-01-01T12:00:00Z'', J_Tags = [''go'']\<rparr>"

definition jsonFeed ::
  "int \<Rightarrow> int \<Rightarrow> (int \<Rightarrow> JSONContent list) \<Rightarrow> int \<Rightarrow> nat \<Rightarrow> JSONResponse http_result" where
  "jsonFeed total_hint perPage items page attempt =
     HTTPResponse 200 (Decoded \<lparr>J_Contents = items page, J_Total = total_hint, J_Page = page,
                                 J_PerPage = perPage\<rparr>)"

text \<open>Pages of 300 items each, the items numbered from 0 on.\<close>

definition numberedItems :: "int \<Rightarrow> JSONContent list" where
  "numberedItems page =
     map (\<lambda>k. jsonItem (''v'' @ digits k)) [nat ((page - 1) * 300) ..< nat (page * 300)]"

text \<open>A parser for the one date the example items carry.\<close>

definition parseExampleDate :: "string \<Rightarrow> string \<Rightarrow> time option" where
  "parseExampleDate layout v =
     (if layout = RFC3339 \<and> v = ''2024-01-01T12:00:00Z'' then Some 1704110400000000000 else None)"

section \<open>The pagination envelope\<close>


section \<open>Tags of a content\<close>



section \<open>What a sync leaves in \<open>contents\<close>\<close>






section \<open>Properties of the scoring service\<close>

lemma defaultRules_simps:
  "VideoTypeWeight defaultRules = 3 / 2" "ArticleTypeWeight defaultRules = 1"
  by (simp_all add: defaultRules_def NewScoringService_def Let_def)

lemma recency_hotVideo: "calculateRecencyScore now (PublishedAt (hotVideo now)) = 5"
  by (simp add: calculateRecencyScore_def hotVideo_def time_Sub_def maxDuration_def
      minDuration_def Hour_def Let_def)

lemma engagement_hotVideo: "calculateEngagementScore (hotVideo now) = 1 / 3"
  by (simp add: calculateEngagementScore_def hotVideo_def ContentTypeVideo_def)

lemma hotVideo_fields:
  "Stats (hotVideo now) = Some \<lparr>Stats_ID = 0, Stats_ContentID = 1, Views = 150000, Likes = 5000,
                     ReadingTime = 0, Reactions = 0, Stats_UpdatedAt = 0\<rparr>"
  "ContentType (hotVideo now) = ContentTypeVideo"
  by (simp_all add: hotVideo_def)

lemma hotVideo_score:
  "map_option components (CalculateScore defaultRules (hotVideo now) now)
     = Some (200, 3 / 2, 5, 33 / 100, 30533 / 100)"
  by (simp add: CalculateScore_def components_def hotVideo_fields recency_hotVideo
      engagement_hotVideo defaultRules_simps Let_def math_Round_def)

text \<open>
  Claim C1, as amended. For the video with 150000 views and 5000 likes published five
  days before the current time, under the default weights, \<open>CalculateScore\<close> returns
  base 200.0, type weight 1.5, recency 5.0, engagement 0.33 and final 305.33: the
  engagement is (5000 / 150000) * 10 = 0.333..., not 3.33.
\<close>

theorem CalculateScore_hot_video:
  "map_option components (CalculateScore defaultRules (hotVideo now) now)
     = Some (200.0, 1.5, 5.0, 0.33, 305.33)"
  using hotVideo_score [of now] by simp

text \<open>
  Claim C1 as stated fails: the components are not (200.0, 1.5, 5.0, 3.33, 308.33).
\<close>

theorem CalculateScore_hot_video_not_as_claimed:
  "map_option components (CalculateScore defaultRules (hotVideo 0) 0)
     \<noteq> Some (200.0, 1.5, 5.0, 3.33, 308.33)"
  using hotVideo_score [of 0] by auto






section \<open>Properties of the stale sweep\<close>

text \<open>
  Claim C10. \<open>MarkStaleContentsAsDeleted\<close> keeps every row of \<open>contents\<close> in
  its place. A row of the given provider that is live (\<open>deleted = 0\<close>) and was last
  updated before the threshold becomes the same row with \<open>deleted = 1\<close> and
  \<open>updated_at\<close> the time of the sweep: its id, provider, external id, title,
  description, content type, publication time, creation time and raw data stay. Every
  other row (another provider, already deleted, or updated at or after the threshold)
  stays as it is, and so do the tables of providers, statistics, scores, tags and
  tag links.
\<close>

theorem MarkStaleContentsAsDeleted_frame:
  "length (contents (MarkStaleContentsAsDeleted d now providerID threshold)) = length (contents d)
   \<and> (\<forall>i < length (contents d).
        contents (MarkStaleContentsAsDeleted d now providerID threshold) ! i =
          (if c_provider_id (contents d ! i) = providerID \<and> c_deleted (contents d ! i) = 0
              \<and> c_updated_at (contents d ! i) < threshold
           then (contents d ! i)\<lparr>c_deleted := 1, c_updated_at := now\<rparr>
           else contents d ! i))
   \<and> providers (MarkStaleContentsAsDeleted d now providerID threshold) = providers d
   \<and> content_stats (MarkStaleContentsAsDeleted d now providerID threshold) = content_stats d
   \<and> content_scores (MarkStaleContentsAsDeleted d now providerID threshold) = content_scores d
   \<and> tags (MarkStaleContentsAsDeleted d now providerID threshold) = tags d
   \<and> content_tags (MarkStaleContentsAsDeleted d now providerID threshold) = content_tags d"
  by (auto simp: MarkStaleContentsAsDeleted_def stale_def)

theorem MarkStaleContentsAsDeleted_frame_witness:
  "(3::nat) < length (contents exampleStore)
   \<and> contents (MarkStaleContentsAsDeleted exampleStore 100 1 50) ! 0
       = (contents exampleStore ! 0)\<lparr>c_deleted := 1, c_updated_at := 100\<rparr>
   \<and> contents (MarkStaleContentsAsDeleted exampleStore 100 1 50) ! 1 = contents exampleStore ! 1
   \<and> contents (MarkStaleContentsAsDeleted exampleStore 100 1 50) ! 2 = contents exampleStore ! 2
   \<and> contents (MarkStaleContentsAsDeleted exampleStore 100 1 50) ! 3 = contents exampleStore ! 3"
proof -
  have len: "length (contents exampleStore) = 4"
    by (simp add: exampleStore_def)
  note row = MarkStaleContentsAsDeleted_frame [of exampleStore 100 1 50,
      THEN conjunct2, THEN conjunct1, rule_format]
  have "contents (MarkStaleContentsAsDeleted exampleStore 100 1 50) ! 0
       = (contents exampleStore ! 0)\<lparr>c_deleted := 1, c_updated_at := 100\<rparr>"
    using row [of 0] by (simp add: exampleStore_def)
  moreover have "contents (MarkStaleContentsAsDeleted exampleStore 100 1 50) ! 1
       = contents exampleStore ! 1"
    using row [of 1] by (simp add: exampleStore_def)
  moreover have "contents (MarkStaleContentsAsDeleted exampleStore 100 1 50) ! 2
       = contents exampleStore ! 2"
    using row [of 2] by (simp add: exampleStore_def)
  moreover have "contents (MarkStaleContentsAsDeleted exampleStore 100 1 50) ! 3
       = contents exampleStore ! 3"
    using row [of 3] by (simp add: exampleStore_def)
  ultimately show ?thesis
    using len by simp
qed

section \<open>Properties of the search handler\<close>

text \<open>
  Claim C6 fails on the code. A request with \<open>sort=date\<close>, and one with
  \<open>type=podcast\<close>, is refused by \<open>validateParams\<close>, and the handler answers with
  status 500 (\<open>http.StatusInternalServerError\<close>) and the error body, not with 400:
  it gives every error of \<open>Execute\<close> the same status.
\<close>

theorem HandleSearch_validation_error_is_500:
  "fst (HandleSearch md5_Sum Search cache (\<lambda>k. if k = ''sort'' then ''date'' else []))
     = \<lparr>StatusCode = 500, Body = ErrorBody (InvalidSortBy ''date'')\<rparr>
   \<and> fst (HandleSearch md5_Sum Search cache (\<lambda>k. if k = ''type'' then ''podcast'' else []))
     = \<lparr>StatusCode = 500, Body = ErrorBody (InvalidContentType ''podcast'')\<rparr>"
  by (simp add: HandleSearch_def Execute_def validateParams_def Atoi_def Let_def
      StatusInternalServerError_def ContentTypeVideo_def ContentTypeArticle_def)

section \<open>Properties of the provider adapters\<close>

lemma fetchLoop_done:
  "\<not> page \<le> totalPages \<Longrightarrow> fetchLoop wait get view n page totalPages acc = Inr acc"
  by (subst fetchLoop.simps) simp

lemma fetchLoop_step:
  "page \<le> totalPages \<Longrightarrow> wait page \<Longrightarrow> getWithRetry (get page) = HTTPResponse 200 (Decoded r)
   \<Longrightarrow>
   fetchLoop wait get view n page totalPages acc =
     (case view r of (t, pp, items) \<Rightarrow>
        if int (length acc) \<ge> t \<or> length acc \<ge> 1000 then Inr acc
        else fetchLoop wait get view n (page + 1)
               (if page = 1 \<and> pp > 0 then go_quo (wrap64 (wrap64 (t + pp) - 1)) pp else totalPages)
               (appendNormalized n acc items))"
  by (subst fetchLoop.simps) (simp add: StatusOK_def Let_def)

lemma getWithRetry_jsonFeed:
  "getWithRetry (jsonFeed t pp items page) =
     HTTPResponse 200 (Decoded \<lparr>J_Contents = items page, J_Total = t, J_Page = page, J_PerPage = pp\<rparr>)"
  by (simp add: getWithRetry_def jsonFeed_def isOK_def StatusOK_def)

lemma normalize_jsonItem:
  "time_Parse RFC3339 ''2024-01-01T12:00:00Z'' = Some t \<Longrightarrow>
   \<exists>c. jsonProvider_normalize time_Parse (jsonItem ident) rd = Inr c \<and> ExternalID c = ident"
  by (simp add: jsonProvider_normalize_def jsonItem_def)

lemma parseExampleDate_ok:
  "parseExampleDate RFC3339 ''2024-01-01T12:00:00Z'' = Some 1704110400000000000"
  by (simp add: parseExampleDate_def)

text \<open>
  Claim C5 fails on the code for the JSON dialect. A feed of one page whose only item
  has no id (the empty string), a known type and a date that parses: the JSON adapter's
  \<open>FetchContents\<close> returns one record, and its external id is empty. Only the XML
  adapter's \<open>normalize\<close> refuses an empty id.
\<close>

theorem jsonProvider_FetchContents_keeps_empty_id:
  assumes "time_Parse RFC3339 ''2024-01-01T12:00:00Z'' = Some t"
  shows "map_sum id (map ExternalID)
           (jsonProvider_FetchContents time_Parse json_Marshal (\<lambda>page. True)
              (jsonFeed 1 10 (\<lambda>page. [jsonItem []]))) = Inr [[]]"
proof -
  obtain c where c:
    "jsonProvider_normalize time_Parse (jsonItem []) (json_Marshal (jsonItem [])) = Inr c"
    "ExternalID c = []"
    using normalize_jsonItem [of time_Parse t, OF assms] by blast
  show ?thesis
    unfolding jsonProvider_FetchContents_def
    by (subst fetchLoop_step [OF _ _ getWithRetry_jsonFeed])
      (simp_all add: c go_quo_def wrap64_def fetchLoop_done)
qed

theorem jsonProvider_FetchContents_keeps_empty_id_witness:
  "map_sum id (map ExternalID)
     (jsonProvider_FetchContents parseExampleDate (\<lambda>raw. []) (\<lambda>page. True)
        (jsonFeed 1 10 (\<lambda>page. [jsonItem []]))) = Inr [[]]"
  by (rule jsonProvider_FetchContents_keeps_empty_id
      [of parseExampleDate 1704110400000000000, OF parseExampleDate_ok])

lemma length_appendNormalized_jsonItems:
  assumes "time_Parse RFC3339 ''2024-01-01T12:00:00Z'' = Some t"
  shows "length (appendNormalized (\<lambda>raw. jsonProvider_normalize time_Parse raw (m raw)) acc
            (map (\<lambda>k. jsonItem (f k)) ks)) = length acc + length ks"
proof (induction ks arbitrary: acc)
  case Nil
  then show ?case by simp
next
  case (Cons k ks)
  obtain c where "jsonProvider_normalize time_Parse (jsonItem (f k)) (m (jsonItem (f k))) = Inr c"
    using normalize_jsonItem [of time_Parse t, OF assms] by blast
  then show ?case using Cons.IH by simp
qed

text \<open>
  Claim C9 fails on the code. A feed of four pages of 300 items each, announced as
  total 1200 and 300 a page: \<open>FetchContents\<close> returns 1200 records. The bound of
  1000 is only tested before a page is appended, so the page that crosses it is
  appended whole.
\<close>

theorem jsonProvider_FetchContents_exceeds_1000:
  assumes "time_Parse RFC3339 ''2024-01-01T12:00:00Z'' = Some t"
  shows "map_sum id length
           (jsonProvider_FetchContents time_Parse json_Marshal (\<lambda>page. True)
              (jsonFeed 1200 300 numberedItems)) = Inr 1200"
proof -
  let ?n = "\<lambda>raw. jsonProvider_normalize time_Parse raw (json_Marshal raw)"
  let ?v = "\<lambda>r. (J_Total r, J_PerPage r, J_Contents r)"
  let ?loop = "fetchLoop (\<lambda>page. True) (jsonFeed 1200 300 numberedItems) ?v ?n"
  have len: "length (appendNormalized ?n acc (numberedItems page)) = length acc + 300"
    if "1 \<le> page" for acc page
    unfolding numberedItems_def using that
    by (simp add: length_appendNormalized_jsonItems [of time_Parse t, OF assms]
        nat_diff_distrib' nat_mult_distrib algebra_simps)
  have step: "?loop page 4 acc = ?loop (page + 1) 4 (appendNormalized ?n acc (numberedItems page))"
    if "2 \<le> page" "page \<le> 4" "length acc < 1000" for page acc
    using that by (subst fetchLoop_step [OF _ _ getWithRetry_jsonFeed]) auto
  define a1 where "a1 = appendNormalized ?n [] (numberedItems 1)"
  define a2 where "a2 = appendNormalized ?n a1 (numberedItems 2)"
  define a3 where "a3 = appendNormalized ?n a2 (numberedItems 3)"
  define a4 where "a4 = appendNormalized ?n a3 (numberedItems 4)"
  have l1: "length a1 = 300" unfolding a1_def by (simp add: len)
  have l2: "length a2 = 600" unfolding a2_def by (simp add: len l1)
  have l3: "length a3 = 900" unfolding a3_def by (simp add: len l2)
  have l4: "length a4 = 1200" unfolding a4_def by (simp add: len l3)
  have "?loop 1 1 [] = ?loop 2 4 a1"
    by (subst fetchLoop_step [OF _ _ getWithRetry_jsonFeed])
      (simp_all add: go_quo_def wrap64_def a1_def)
  also have "\<dots> = ?loop 3 4 a2"
    using step [of 2 a1] by (simp add: l1 a2_def)
  also have "\<dots> = ?loop 4 4 a3"
    using step [of 3 a2] by (simp add: l2 a3_def)
  also have "\<dots> = ?loop 5 4 a4"
    using step [of 4 a3] by (simp add: l3 a4_def)
  also have "\<dots> = Inr a4"
    by (rule fetchLoop_done) simp
  finally show ?thesis
    by (simp add: jsonProvider_FetchContents_def l4)
qed

theorem jsonProvider_FetchContents_exceeds_1000_witness:
  "map_sum id length
     (jsonProvider_FetchContents parseExampleDate (\<lambda>raw. []) (\<lambda>page. True)
        (jsonFeed 1200 300 numberedItems)) = Inr 1200"
  by (rule jsonProvider_FetchContents_exceeds_1000
      [of parseExampleDate 1704110400000000000, OF parseExampleDate_ok])

section \<open>Properties of the search use case\<close>





lemma validateParams_range:
  assumes "validateParams p0 = Inr p"
  shows "1 \<le> Page p" "1 \<le> PageSize p" "PageSize p \<le> 50"
    "SortBy p = ''popularity'' \<or> SortBy p = ''relevance''"
    "Filter_ContentType p = [] \<or> Filter_ContentType p = ''video'' \<or> Filter_ContentType p = ''article''"
    "Query p = Query p0"
  using assms
  by (auto simp: validateParams_def Let_def ContentTypeVideo_def ContentTypeArticle_def
      split: if_splits)





section \<open>Properties of \<open>AddTags\<close>\<close>



















section \<open>Properties of the provider sync\<close>






















section \<open>Properties of the cache key\<close>

lemma of_char_digit_char: "d < 10 \<Longrightarrow> (of_char (digit_char d) :: nat) = 48 + d"
  by (simp add: digit_char_def)

lemma digits_val_snoc: "digits_val (xs @ [c]) = 10 * digits_val xs + (int (of_char c) - 48)"
  by (simp add: digits_val_def)

lemma digits_val_digits: "digits_val (digits n) = int n"
proof (induction n rule: digits.induct)
  case (1 n)
  show ?case
  proof (cases "n < 10")
    case True
    then show ?thesis
      by (subst digits.simps) (simp add: digits_val_def of_char_digit_char)
  next
    case False
    have "n mod 10 < 10" by simp
    then have "int (of_char (digit_char (n mod 10))) = 48 + int (n mod 10)"
      by (simp only: of_char_digit_char)
    moreover have "10 * int (n div 10) + int (n mod 10) = int n"
      by (simp add: zdiv_int zmod_int)
    ultimately show ?thesis
      using False 1 by (subst digits.simps) (simp add: digits_val_snoc)
  qed
qed

lemma digits_inj:
  assumes "digits a = digits b"
  shows "a = b"
proof -
  have "int a = digits_val (digits a)"
    by (simp only: digits_val_digits)
  also have "\<dots> = digits_val (digits b)"
    by (simp only: assms)
  also have "\<dots> = int b"
    by (simp only: digits_val_digits)
  finally show ?thesis
    by simp
qed

lemma digits_no_colon: "CHR '':'' \<notin> set (digits n)"
proof (induction n rule: digits.induct)
  case (1 n)
  have d: "CHR '':'' \<noteq> digit_char k" if "k < 10" for k
  proof
    assume "CHR '':'' = digit_char k"
    then have "(of_char (CHR '':'') :: nat) = of_char (digit_char k)" by simp
    with that show False by (simp add: of_char_digit_char)
  qed
  show ?case
  proof (cases "n < 10")
    case True
    then show ?thesis by (subst digits.simps) (simp add: d)
  next
    case False
    with 1 show ?thesis by (subst digits.simps) (simp add: d)
  qed
qed

lemma Sprint_d_nonneg_inj: "0 \<le> i \<Longrightarrow> 0 \<le> j \<Longrightarrow> Sprint_d i = Sprint_d j \<Longrightarrow> i = j"
  by (auto simp: Sprint_d_def dest: digits_inj)

lemma Sprint_d_no_colon: "0 \<le> i \<Longrightarrow> CHR '':'' \<notin> set (Sprint_d i)"
  by (simp add: Sprint_d_def digits_no_colon)

lemma split_last:
  "x @ c # y = x2 @ c # y2 \<Longrightarrow> c \<notin> set y \<Longrightarrow> c \<notin> set y2 \<Longrightarrow> x = x2 \<and> y = y2"
proof (induction x arbitrary: x2)
  case Nil
  then show ?case by (cases x2) auto
next
  case (Cons a x)
  then show ?case by (cases x2) auto
qed


lemma canonicalKey_inj:
  assumes 1: "validateParams r1 = Inr p1" and 2: "validateParams r2 = Inr p2"
    and k: "canonicalKey p1 = canonicalKey p2"
  shows "p1 = p2"
proof -
  note v1 = validateParams_range [OF 1] and v2 = validateParams_range [OF 2]
  have ps: "CHR '':'' \<notin> set (Sprint_d (PageSize p1))" "CHR '':'' \<notin> set (Sprint_d (PageSize p2))"
    using v1(2) v2(2) by (simp_all add: Sprint_d_no_colon)
  have pg: "CHR '':'' \<notin> set (Sprint_d (Page p1))" "CHR '':'' \<notin> set (Sprint_d (Page p2))"
    using v1(1) v2(1) by (simp_all add: Sprint_d_no_colon)
  have so: "CHR '':'' \<notin> set (SortBy p1)" "CHR '':'' \<notin> set (SortBy p2)"
    using v1(4) v2(4) by auto
  have ty: "CHR '':'' \<notin> set (Filter_ContentType p1)" "CHR '':'' \<notin> set (Filter_ContentType p2)"
    using v1(5) v2(5) by auto
  let ?a1 = "''search:'' @ Query p1" and ?a2 = "''search:'' @ Query p2"
  let ?b1 = "?a1 @ CHR '':'' # Filter_ContentType p1" and ?b2 = "?a2 @ CHR '':'' # Filter_ContentType p2"
  let ?c1 = "?b1 @ CHR '':'' # SortBy p1" and ?c2 = "?b2 @ CHR '':'' # SortBy p2"
  let ?d1 = "?c1 @ CHR '':'' # Sprint_d (Page p1)" and ?d2 = "?c2 @ CHR '':'' # Sprint_d (Page p2)"
  from k have "?d1 @ CHR '':'' # Sprint_d (PageSize p1) = ?d2 @ CHR '':'' # Sprint_d (PageSize p2)"
    by (simp add: canonicalKey_def)
  from split_last [OF this ps] have d: "?d1 = ?d2" and e5: "Sprint_d (PageSize p1) = Sprint_d (PageSize p2)"
    by simp_all
  from split_last [OF d pg] have c: "?c1 = ?c2" and e4: "Sprint_d (Page p1) = Sprint_d (Page p2)"
    by simp_all
  from split_last [OF c so] have b: "?b1 = ?b2" and e3: "SortBy p1 = SortBy p2"
    by simp_all
  from split_last [OF b ty] have a: "?a1 = ?a2" and e2: "Filter_ContentType p1 = Filter_ContentType p2"
    by simp_all
  from a have e1: "Query p1 = Query p2"
    by simp
  from e4 v1(1) v2(1) have e4: "Page p1 = Page p2"
    by (intro Sprint_d_nonneg_inj) simp_all
  from e5 v1(2) v2(2) have e5: "PageSize p1 = PageSize p2"
    by (intro Sprint_d_nonneg_inj) simp_all
  from e1 e2 e3 e4 e5 show ?thesis
    by simp
qed

lemma pigeonhole_digest:
  fixes f :: "string \<Rightarrow> 128 word"
  shows "\<exists>q1 q2. q1 \<noteq> q2 \<and> f q1 = f q2"
proof (rule ccontr)
  assume "\<not> (\<exists>q1 q2. q1 \<noteq> q2 \<and> f q1 = f q2)"
  then have "inj f"
    by (auto simp: inj_def)
  moreover have "finite (range f)"
    by (rule finite_subset [of _ UNIV]) simp_all
  ultimately have "finite (UNIV :: string set)"
    by (rule finite_imageD [rotated])
  then show False
    by (simp add: infinite_UNIV_listI)
qed


lemma of_char_hex_char:
  "n < 16 \<Longrightarrow> (of_char (hex_char n) :: nat) = (if n < 10 then 48 + n else 87 + n)"
  by (simp add: hex_char_def)

lemma hex_char_inj:
  assumes "a < 16" "b < 16" "hex_char a = hex_char b"
  shows "a = b"
proof -
  from assms(3) have "(of_char (hex_char a) :: nat) = of_char (hex_char b)"
    by simp
  with assms(1,2) show ?thesis
    by (simp add: of_char_hex_char split: if_splits)
qed

lemma hex_pairs_inj:
  assumes "concat (map (\<lambda>b. [hex_char (b div 16), hex_char (b mod 16)]) bs)
             = concat (map (\<lambda>b. [hex_char (b div 16), hex_char (b mod 16)]) cs)"
    and "length bs = length cs"
    and "\<forall>b \<in> set bs. b < 256" "\<forall>c \<in> set cs. c < 256"
  shows "bs = cs"
  using assms
proof (induction bs arbitrary: cs)
  case Nil
  then show ?case by simp
next
  case (Cons b bs)
  then obtain c cs2 where cs: "cs = c # cs2"
    by (cases cs) auto
  from Cons.prems cs have lt: "b < 256" "c < 256"
    by simp_all
  from Cons.prems(1) cs have h: "hex_char (b div 16) = hex_char (c div 16)"
    "hex_char (b mod 16) = hex_char (c mod 16)"
    and r: "concat (map (\<lambda>b. [hex_char (b div 16), hex_char (b mod 16)]) bs)
             = concat (map (\<lambda>b. [hex_char (b div 16), hex_char (b mod 16)]) cs2)"
    by simp_all
  from lt have "b div 16 < 16" "c div 16 < 16" "b mod 16 < 16" "c mod 16 < 16"
    by simp_all
  with h have "b div 16 = c div 16" "b mod 16 = c mod 16"
    by (auto intro: hex_char_inj)
  then have "b = c"
    by (metis div_mult_mod_eq)
  moreover from Cons.IH [OF r] Cons.prems cs have "bs = cs2"
    by simp
  ultimately show ?case using cs by simp
qed

lemma bit_digest_byte:
  fixes w :: "128 word"
  shows "bit (unat (drop_bit (8 * i) w) mod 256) j \<longleftrightarrow> j < 8 \<and> bit w (8 * i + j)"
proof -
  have "unat (drop_bit (8 * i) w) mod 256 = take_bit 8 (unat (drop_bit (8 * i) w))"
    by (simp add: take_bit_eq_mod)
  then show ?thesis
    by (simp add: bit_take_bit_iff bit_unsigned_iff bit_drop_bit_eq)
qed

lemma digest_bytes_inj:
  assumes "digest_bytes w = digest_bytes v"
  shows "w = v"
proof (rule bit_word_eqI)
  fix n assume n: "n < LENGTH(128)"
  from assms have "\<forall>i \<in> set (rev [0..<16]).
      unat (drop_bit (8 * i) w) mod 256 = unat (drop_bit (8 * i) v) mod 256"
    unfolding digest_bytes_def by (simp only: map_eq_conv)
  moreover from n have "n div 8 < 16"
    by simp
  ultimately have "unat (drop_bit (8 * (n div 8)) w) mod 256
      = unat (drop_bit (8 * (n div 8)) v) mod 256"
    by simp
  then have "bit (unat (drop_bit (8 * (n div 8)) w) mod 256) (n mod 8)
      \<longleftrightarrow> bit (unat (drop_bit (8 * (n div 8)) v) mod 256) (n mod 8)"
    by simp
  then show "bit w n \<longleftrightarrow> bit v n"
    by (simp add: bit_digest_byte)
qed

lemma Sprint_x_inj:
  assumes "Sprint_x w = Sprint_x v"
  shows "w = v"
proof -
  have "digest_bytes w = digest_bytes v"
  proof (rule hex_pairs_inj)
    show "concat (map (\<lambda>b. [hex_char (b div 16), hex_char (b mod 16)]) (digest_bytes w))
             = concat (map (\<lambda>b. [hex_char (b div 16), hex_char (b mod 16)]) (digest_bytes v))"
      using assms by (simp add: Sprint_x_def)
    show "length (digest_bytes w) = length (digest_bytes v)"
      by (simp add: digest_bytes_def)
    show "\<forall>b \<in> set (digest_bytes w). b < 256" "\<forall>c \<in> set (digest_bytes v). c < 256"
      by (auto simp: digest_bytes_def)
  qed
  then show ?thesis
    by (rule digest_bytes_inj)
qed


text \<open>
  Claim C7, as amended. For two parameter sets that passed validation (after defaulting
  and clamping), the string that is hashed is the same exactly when the two sets agree
  on query, kind, sort, page and page size, and the cache keys are the same exactly
  when the digests of the two strings are the same. So sets that agree get the same
  key, and sets that differ get the same key only where the digest collides on their
  two strings.
\<close>

theorem generateCacheKey_coherence:
  assumes "validateParams r1 = Inr p1" and "validateParams r2 = Inr p2"
  shows "(canonicalKey p1 = canonicalKey p2 \<longleftrightarrow> p1 = p2)
       \<and> (generateCacheKey md5_Sum p1 = generateCacheKey md5_Sum p2
            \<longleftrightarrow> md5_Sum (canonicalKey p1) = md5_Sum (canonicalKey p2))"
proof -
  have "canonicalKey p1 = canonicalKey p2 \<longleftrightarrow> p1 = p2"
    using canonicalKey_inj [OF assms] by blast
  moreover have "generateCacheKey md5_Sum p1 = generateCacheKey md5_Sum p2
            \<longleftrightarrow> md5_Sum (canonicalKey p1) = md5_Sum (canonicalKey p2)"
    using Sprint_x_inj by (auto simp: generateCacheKey_def)
  ultimately show ?thesis by simp
qed

theorem generateCacheKey_coherence_witness:
  "validateParams \<lparr>Query = ''go'', Filter_ContentType = [], SortBy = [], Page = 0, PageSize = 0\<rparr>
     = Inr \<lparr>Query = ''go'', Filter_ContentType = [], SortBy = ''popularity'', Page = 1, PageSize = 20\<rparr>
   \<and> validateParams \<lparr>Query = ''go'', Filter_ContentType = [], SortBy = ''popularity'', Page = 2, PageSize = 100\<rparr>
     = Inr \<lparr>Query = ''go'', Filter_ContentType = [], SortBy = ''popularity'', Page = 2, PageSize = 50\<rparr>
   \<and> canonicalKey \<lparr>Query = ''go'', Filter_ContentType = [], SortBy = ''popularity'', Page = 1, PageSize = 20\<rparr>
     \<noteq> canonicalKey \<lparr>Query = ''go'', Filter_ContentType = [], SortBy = ''popularity'', Page = 2, PageSize = 50\<rparr>
   \<and> generateCacheKey (\<lambda>s. 0) \<lparr>Query = ''go'', Filter_ContentType = [], SortBy = ''popularity'', Page = 1, PageSize = 20\<rparr>
     = generateCacheKey (\<lambda>s. 0) \<lparr>Query = ''go'', Filter_ContentType = [], SortBy = ''popularity'', Page = 2, PageSize = 50\<rparr>"
proof -
  let ?p1 = "\<lparr>Query = ''go'', Filter_ContentType = [], SortBy = ''popularity'', Page = 1, PageSize = 20\<rparr>"
  let ?p2 = "\<lparr>Query = ''go'', Filter_ContentType = [], SortBy = ''popularity'', Page = 2, PageSize = 50\<rparr>"
  have 1: "validateParams \<lparr>Query = ''go'', Filter_ContentType = [], SortBy = [], Page = 0, PageSize = 0\<rparr>
     = Inr ?p1"
    by (simp add: validateParams_def Let_def)
  have 2: "validateParams \<lparr>Query = ''go'', Filter_ContentType = [], SortBy = ''popularity'', Page = 2, PageSize = 100\<rparr>
     = Inr ?p2"
    by (simp add: validateParams_def Let_def)
  note t = generateCacheKey_coherence [OF 1 2, of "\<lambda>s. 0"]
  have "?p1 \<noteq> ?p2" by simp
  with t have "canonicalKey ?p1 \<noteq> canonicalKey ?p2" by blast
  moreover from t have "generateCacheKey (\<lambda>s. 0) ?p1 = generateCacheKey (\<lambda>s. 0) ?p2" by simp
  ultimately show ?thesis using 1 2 by simp
qed

text \<open>
  Claim C7 as stated fails for every digest of 16 bytes, MD5 among them: there are
  more queries than digests, so two validated parameter sets that differ in the query
  get the same cache key.
\<close>

theorem generateCacheKey_not_injective:
  "\<forall>md5_Sum. \<exists>p1 p2. validateParams p1 = Inr p1 \<and> validateParams p2 = Inr p2 \<and> p1 \<noteq> p2
      \<and> generateCacheKey md5_Sum p1 = generateCacheKey md5_Sum p2"
proof
  fix md5_Sum :: "string \<Rightarrow> 128 word"
  let ?p = "\<lambda>q. \<lparr>Query = q, Filter_ContentType = [], SortBy = ''popularity'', Page = 1, PageSize = 20\<rparr>"
  obtain q1 q2 where q: "q1 \<noteq> q2" "md5_Sum (canonicalKey (?p q1)) = md5_Sum (canonicalKey (?p q2))"
    using pigeonhole_digest [of "\<lambda>q. md5_Sum (canonicalKey (?p q))"] by blast
  have v: "validateParams (?p q) = Inr (?p q)" for q
    by (simp add: validateParams_def Let_def)
  have "?p q1 \<noteq> ?p q2"
    using q(1) by simp
  moreover have "generateCacheKey md5_Sum (?p q1) = generateCacheKey md5_Sum (?p q2)"
    using q(2) by (simp add: generateCacheKey_def)
  ultimately show "\<exists>p1 p2. validateParams p1 = Inr p1 \<and> validateParams p2 = Inr p2 \<and> p1 \<noteq> p2
      \<and> generateCacheKey md5_Sum p1 = generateCacheKey md5_Sum p2"
    using v by blast
qed

end
